theory Spec2Isabelle
  imports Complex_Main "HOL-Library.Sublist"
begin

section \<open>Strings\<close>

text \<open>
  JavaScript's \<open>s.includes(n)\<close>, written \<open>str_includes s n\<close> here: \<open>n\<close> occurs
  in \<open>s\<close> as a contiguous run of code units. The scan tries every start position
  from the left.
\<close>

fun str_includes :: "string \<Rightarrow> string \<Rightarrow> bool" where
  "str_includes [] n = (n = [])"
| "str_includes (c # cs) n = (prefix n (c # cs) \<or> str_includes cs n)"

section \<open>Network Interception Gate (turnstilePatch/script.js)\<close>

text \<open>A request header as the webRequest API hands it over: a name and a value.\<close>

record http_header =
  name :: string
  hvalue :: string

text \<open>
  The \<open>details\<close> object a webRequest listener receives; \<open>requestHeaders\<close> may be
  absent (\<open>undefined\<close>).
\<close>

record details =
  url :: string
  requestHeaders :: "http_header list option"

text \<open>
  The \<open>BlockingResponse\<close> dictionary a blocking listener returns; every member is
  optional. A listener that returns nothing yields \<open>None\<close> of this type.
\<close>

record blocking_response =
  cancel :: "bool option"
  redirectUrl :: "string option"
  newHeaders :: "http_header list option"

definition no_response :: blocking_response where
  "no_response = \<lparr>cancel = None, redirectUrl = None, newHeaders = None\<rparr>"

text \<open>script.js line 10: the URL test of the allowing listener.\<close>

definition is_asset_url :: "string \<Rightarrow> bool" where
  "is_asset_url u = (str_includes u ''challenges.cloudflare.com'' \<or> str_includes u ''turnstile'')"

text \<open>script.js line 69: the URL test of the redirecting listener.\<close>

definition is_endpoint_url :: "string \<Rightarrow> bool" where
  "is_endpoint_url u =
     (str_includes u ''/cdn-cgi/challenge-platform/'' \<or> str_includes u ''turnstile/v2/'')"

text \<open>\<open>details.requestHeaders || []\<close>\<close>

definition headers_or_empty :: "details \<Rightarrow> http_header list" where
  "headers_or_empty d = (case requestHeaders d of None \<Rightarrow> [] | Some hs \<Rightarrow> hs)"

text \<open>
  script.js lines 2-26: the first \<open>onBeforeRequest\<close> listener. A Turnstile URL is
  answered with \<open>{cancel: false}\<close>; any other request gets \<open>X-Patched\<close> pushed onto
  its header array.
\<close>

definition onBeforeRequest_allow :: "details \<Rightarrow> blocking_response" where
  "onBeforeRequest_allow d =
     (if is_asset_url (url d) then no_response\<lparr>cancel := Some False\<rparr>
      else no_response\<lparr>newHeaders :=
             Some (headers_or_empty d @ [\<lparr>name = ''X-Patched'', hvalue = ''true''\<rparr>])\<rparr>)"

text \<open>script.js lines 49-64: the \<open>onBeforeSendHeaders\<close> listener.\<close>

definition nav_context_headers :: "http_header list" where
  "nav_context_headers =
     [\<lparr>name = ''Sec-Fetch-Dest'', hvalue = ''document''\<rparr>,
      \<lparr>name = ''Sec-Fetch-Mode'', hvalue = ''navigate''\<rparr>,
      \<lparr>name = ''Sec-Fetch-Site'', hvalue = ''same-origin''\<rparr>,
      \<lparr>name = ''Sec-Fetch-User'', hvalue = ''?1''\<rparr>,
      \<lparr>name = ''Upgrade-Insecure-Requests'', hvalue = ''1''\<rparr>]"

definition onBeforeSendHeaders :: "details \<Rightarrow> blocking_response" where
  "onBeforeSendHeaders d =
     no_response\<lparr>newHeaders := Some (headers_or_empty d @ nav_context_headers)\<rparr>"

text \<open>
  script.js lines 67-77: the second \<open>onBeforeRequest\<close> listener. It returns a redirect
  to a \<open>data:\<close> URL for an endpoint URL and nothing (\<open>undefined\<close>) otherwise.
\<close>

definition fake_response_url :: string where
  "fake_response_url = ''data:text/plain;charset=utf-8,fake-valid-response''"

definition onBeforeRequest_redirect :: "details \<Rightarrow> blocking_response option" where
  "onBeforeRequest_redirect d =
     (if is_endpoint_url (url d) then Some (no_response\<lparr>redirectUrl := Some fake_response_url\<rparr>)
      else None)"

text \<open>
  Both \<open>onBeforeRequest\<close> listeners are registered for every URL, so each request is
  shown to both, in registration order; the browser then acts on the answers together.
  The Gate substitutes a forged response when some listener answered with a redirect and
  none cancelled the request.
\<close>

definition gate_before_request :: "details \<Rightarrow> blocking_response list" where
  "gate_before_request d =
     onBeforeRequest_allow d #
     (case onBeforeRequest_redirect d of None \<Rightarrow> [] | Some r \<Rightarrow> [r])"

definition gate_forges :: "details \<Rightarrow> bool" where
  "gate_forges d =
     (list_ex (\<lambda>r. redirectUrl r \<noteq> None) (gate_before_request d) \<and>
      \<not> list_ex (\<lambda>r. cancel r = Some True) (gate_before_request d))"

definition gate_forged_url :: "details \<Rightarrow> string option" where
  "gate_forged_url d =
     (if gate_forges d
      then (case filter (\<lambda>r. redirectUrl r \<noteq> None) (gate_before_request d) of
              [] \<Rightarrow> None | r # _ \<Rightarrow> redirectUrl r)
      else None)"

section \<open>JavaScript values\<close>

text \<open>
  The values the scripts hand around. A function is known by its identity (two
  evaluations of the same arrow function give two different functions); \<open>JRequest u\<close>
  is a \<open>Request\<close> object for the URL \<open>u\<close>, \<open>JObj n\<close> any other object.
\<close>

datatype jsval =
    JUndefined
  | JNull
  | JBool bool
  | JNum int
  | JStr string
  | JArr "jsval list"
  | JFun nat
  | JRequest string
  | JObj nat

datatype js_error = TypeError | RangeError | InvalidStateError | SecurityError

fun js_typeof :: "jsval \<Rightarrow> string" where
  "js_typeof JUndefined = ''undefined''"
| "js_typeof JNull = ''object''"
| "js_typeof (JBool _) = ''boolean''"
| "js_typeof (JNum _) = ''number''"
| "js_typeof (JStr _) = ''string''"
| "js_typeof (JArr _) = ''object''"
| "js_typeof (JFun _) = ''function''"
| "js_typeof (JRequest _) = ''object''"
| "js_typeof (JObj _) = ''object''"


text \<open>\<open>args[i]\<close> of an argument list: \<open>undefined\<close> past its end.\<close>

definition arg :: "nat \<Rightarrow> jsval list \<Rightarrow> jsval" where
  "arg i args = (if i < length args then args ! i else JUndefined)"

section \<open>Numbers as strings\<close>

text \<open>
  \<open>'...' + Date.now()\<close> appends the decimal numeral of the clock reading, an integer
  number of milliseconds.
\<close>

definition digit_char :: "nat \<Rightarrow> char" where
  "digit_char d = ''0123456789'' ! (d mod 10)"

function digits :: "nat \<Rightarrow> string" where
  "digits n = (if n < 10 then [digit_char n] else digits (n div 10) @ [digit_char (n mod 10)])"
  by pat_completeness auto
termination
  by (relation "measure id") auto

declare digits.simps [simp del]

definition number_to_string :: "int \<Rightarrow> string" where
  "number_to_string i = (if i < 0 then CHR ''-'' # digits (nat (- i)) else digits (nat i))"

section \<open>Widget shim and fetch override (the turnstile patch script)\<close>

text \<open>
  The \<open>options\<close> argument of \<open>render\<close>, as far as the shim reads it: its \<open>callback\<close>
  member (\<open>JUndefined\<close> when absent). A falsy argument is \<open>None\<close>.
\<close>

record options =
  callback :: jsval

text \<open>
  A \<open>setTimeout\<close> registration: the delay in milliseconds and what the task does when
  it fires. The task reads the clock and the \<open>callback\<close> member of the object that was
  passed to \<open>render\<close>, so it is given the reading of \<open>Date.now()\<close> and the state of
  that object at the moment it fires; it calls a function with arguments, or throws.
\<close>

record timer =
  delay :: nat
  fire :: "int \<Rightarrow> options \<Rightarrow> js_error + (nat \<times> jsval list)"

text \<open>\<open>obj.callback(a)\<close>: a call of what the member holds, a \<open>TypeError\<close> if that is no function.\<close>

definition call_callback :: "options \<Rightarrow> jsval \<Rightarrow> js_error + (nat \<times> jsval list)" where
  "call_callback obj a = (case callback obj of JFun g \<Rightarrow> Inr (g, [a]) | _ \<Rightarrow> Inl TypeError)"

definition token_prefix :: string where
  "token_prefix = ''fake_turnstile_token_''"

definition fake_token :: "int \<Rightarrow> string" where
  "fake_token now = token_prefix @ number_to_string now"

text \<open>
  \<open>window.turnstile.render\<close> of the patch script: the returned value and the timers it
  registered. \<open>opts\<close> is the \<open>options\<close> object as it is when \<open>render\<close> is called;
  the test of line 12 reads it then, the timer of lines 14-16 reads it again when it fires.
\<close>

definition render :: "jsval \<Rightarrow> options option \<Rightarrow> jsval \<times> timer list" where
  "render element opts =
     (JStr ''fake_widget_id'',
      (case opts of
         None \<Rightarrow> []
       | Some opt \<Rightarrow>
           if js_typeof (callback opt) = ''function''
           then [\<lparr>delay = 1000, fire = (\<lambda>now cur. call_callback cur (JStr (fake_token now)))\<rparr>]
           else []))"

definition reset :: "jsval \<Rightarrow> jsval" where
  "reset widgetId = JBool True"

text \<open>\<open>getResponse\<close> reads the clock once; \<open>now\<close> is that reading.\<close>

definition getResponse :: "jsval \<Rightarrow> int \<Rightarrow> jsval" where
  "getResponse widgetId now = JStr (fake_token now)"

text \<open>
  The shim that the second script installs at \<open>DOMContentLoaded\<close>: an object with
  \<open>render\<close> alone. The arrow function has no \<open>return\<close> and tests nothing;
  \<open>config.callback\<close> is looked up when the timer fires, which throws when \<open>config\<close>
  is \<open>undefined\<close> or \<open>null\<close>.
\<close>

definition render_replacement :: "jsval \<Rightarrow> options option \<Rightarrow> jsval \<times> timer list" where
  "render_replacement el config =
     (JUndefined,
      [\<lparr>delay = 1000,
        fire = (\<lambda>now cur. case config of
                  None \<Rightarrow> Inl TypeError
                | Some c \<Rightarrow> call_callback cur (JStr ''fake-valid-token''))\<rparr>])"

text \<open>
  The object the overridden \<open>fetch\<close> resolves with: \<open>ok\<close>, \<open>status\<close>, what \<open>json()\<close>
  resolves to (an object, as its members) and what \<open>text()\<close> resolves to.
\<close>

record synthetic_response =
  ok :: bool
  status :: nat
  json_body :: "(string \<times> jsval) list"
  text_body :: string

datatype fetch_result = Resolved synthetic_response | Delegated "jsval list"

definition success_response :: synthetic_response where
  \<open>success_response =
     \<lparr>ok = True, status = 200, json_body = [(''success'', JBool True)],
      text_body = ''{"success": true}''\<rparr>\<close>

definition window_fetch :: "jsval list \<Rightarrow> fetch_result" where
  "window_fetch args =
     (case arg 0 args of
        JStr u \<Rightarrow> if str_includes u ''challenges'' then Resolved success_response
                  else Delegated args
      | _ \<Rightarrow> Delegated args)"

section \<open>Canvas read-back (turnstilePatch/content.js)\<close>

text \<open>
  A canvas: its size and its pixels as \<open>getImageData\<close> reads them, four channel values
  (red, green, blue, alpha) of 0 to 255 for each pixel, row by row.
\<close>

record canvas =
  width :: nat
  height :: nat
  pixels :: "int list"

text \<open>A store into a \<open>Uint8ClampedArray\<close> clamps the value to 0..255.\<close>

definition clamp8 :: "int \<Rightarrow> int" where
  "clamp8 v = (if v < 0 then 0 else if 255 < v then 255 else v)"

text \<open>\<open>Math.floor(Math.random() * 2 - 1)\<close>, for the draw \<open>r\<close> of \<open>Math.random()\<close>.\<close>

definition noise :: "real \<Rightarrow> int" where
  "noise r = \<lfloor>r * 2 - 1\<rfloor>"

text \<open>
  The perturbation loop (content.js lines 63-69). \<open>rnd\<close> is the sequence of values that
  \<open>Math.random()\<close> returns and \<open>k\<close> the number of draws made so far; \<open>i\<close> is the loop
  index. The result is the array after the loop and the number of draws made. A store
  past the end of a typed array is ignored, as an update past the end of a list is.
\<close>

function perturb :: "(nat \<Rightarrow> real) \<Rightarrow> nat \<Rightarrow> nat \<Rightarrow> int list \<Rightarrow> int list \<times> nat" where
  "perturb rnd k i data =
     (if i < length data then
        (if rnd k < 1 / 100 then
           (let d1 = data[i := clamp8 (data ! i + noise (rnd (k + 1)))];
                d2 = d1[i + 1 := clamp8 (d1 ! (i + 1) + noise (rnd (k + 2)))];
                d3 = d2[i + 2 := clamp8 (d2 ! (i + 2) + noise (rnd (k + 3)))]
            in perturb rnd (k + 4) (i + 4) d3)
         else perturb rnd (k + 1) (i + 4) data)
      else (data, k))"
  by pat_completeness auto
termination
  by (relation "measure (\<lambda>(rnd, k, i, data). length data - i)") auto

declare perturb.simps [simp del]

text \<open>
  \<open>drawImage(this, 0, 0)\<close> onto a scratch canvas of the same size copies the pixels; a
  source canvas with no width or no height makes it throw.
\<close>

definition draw_scratch :: "canvas \<Rightarrow> js_error + canvas" where
  "draw_scratch this =
     (if width this = 0 \<or> height this = 0 then Inl InvalidStateError
      else Inr \<lparr>width = width this, height = height this, pixels = pixels this\<rparr>)"

text \<open>
  The override of \<open>HTMLCanvasElement.prototype.toDataURL\<close> (content.js lines 51-74).
  \<open>orig\<close> is the browser's own \<open>toDataURL\<close>, saved before the override was installed.
  Line 71 calls \<open>canvas.toDataURL\<close> on the scratch canvas, which is a canvas element
  and so finds the override itself on its prototype; \<open>depth\<close> is the number of further
  nested calls the call stack has room for, and running out of it is a \<open>RangeError\<close>.
\<close>

fun toDataURL ::
  "nat \<Rightarrow> (canvas \<Rightarrow> jsval list \<Rightarrow> js_error + string) \<Rightarrow> (nat \<Rightarrow> real) \<Rightarrow> nat \<Rightarrow>
   canvas \<Rightarrow> jsval list \<Rightarrow> js_error + string" where
  "toDataURL depth orig rnd k this args =
     (case orig this args of
        Inl e \<Rightarrow> Inl e
      | Inr result \<Rightarrow>
          if arg 0 args = JStr ''image/png'' then
            (case draw_scratch this of
               Inl e \<Rightarrow> Inl e
             | Inr scratch \<Rightarrow>
                 (case depth of
                    0 \<Rightarrow> Inl RangeError
                  | Suc d \<Rightarrow>
                      toDataURL d orig rnd (snd (perturb rnd k 0 (pixels scratch)))
                        (scratch\<lparr>pixels := fst (perturb rnd k 0 (pixels scratch))\<rparr>)
                        [arg 0 args, arg 1 args]))
          else Inr result)"

declare toDataURL.simps [simp del]

section \<open>Input-velocity damper (turnstilePatch/content.js)\<close>

text \<open>
  The result of a JavaScript division: a number, an infinity, or \<open>NaN\<close>. A division
  by zero does not throw.
\<close>

datatype jsnum = Num real | PosInfinity | NegInfinity | NaN

definition js_div :: "real \<Rightarrow> int \<Rightarrow> jsnum" where
  "js_div a b =
     (if b \<noteq> 0 then Num (a / of_int b)
      else if 0 < a then PosInfinity
      else if a < 0 then NegInfinity
      else NaN)"

fun js_gt :: "jsnum \<Rightarrow> real \<Rightarrow> bool" where
  "js_gt (Num x) c = (c < x)"
| "js_gt PosInfinity c = True"
| "js_gt NegInfinity c = False"
| "js_gt NaN c = False"

record mouse_state =
  lastTime :: int
  mouseX :: real
  mouseY :: real

record mouse_event =
  clientX :: real
  clientY :: real

text \<open>
  The \<open>mousemove\<close> listener (content.js lines 81-97); \<open>now\<close> is the reading of
  \<open>Date.now()\<close>. It returns the updated variables and whether it called
  \<open>stopPropagation\<close>.
\<close>

definition velocityX :: "mouse_state \<Rightarrow> mouse_event \<Rightarrow> int \<Rightarrow> jsnum" where
  "velocityX st e now = js_div \<bar>clientX e - mouseX st\<bar> (now - lastTime st)"

definition velocityY :: "mouse_state \<Rightarrow> mouse_event \<Rightarrow> int \<Rightarrow> jsnum" where
  "velocityY st e now = js_div \<bar>clientY e - mouseY st\<bar> (now - lastTime st)"

definition mousemove :: "mouse_state \<Rightarrow> mouse_event \<Rightarrow> int \<Rightarrow> mouse_state \<times> bool" where
  "mousemove st e now =
     (\<lparr>lastTime = now, mouseX = clientX e, mouseY = clientY e\<rparr>,
      js_gt (velocityX st e now) (1 / 2) \<or> js_gt (velocityY st e now) (1 / 2))"

section \<open>Navigator properties (turnstilePatch/content.js and the second script)\<close>
























section \<open>The velocity of the specification\<close>

text \<open>
  The specification speaks of the velocity between two events as a displacement over a
  time (200 pixels in 5 milliseconds are 40 pixels per millisecond). These two definitions
  follow its words, to be compared with what the listener computes: the displacement is
  the distance between the two pointer positions.
\<close>

definition displacement :: "mouse_event \<Rightarrow> mouse_event \<Rightarrow> real" where
  "displacement e1 e2 = sqrt ((clientX e2 - clientX e1)\<^sup>2 + (clientY e2 - clientY e1)\<^sup>2)"

definition spec_velocity :: "mouse_event \<Rightarrow> mouse_event \<Rightarrow> int \<Rightarrow> real" where
  "spec_velocity e1 e2 dt = displacement e1 e2 / real_of_int dt"

section \<open>Invariants used in the proofs\<close>

text \<open>
  \<open>near data d\<close>: the array \<open>d\<close> has the length of \<open>data\<close>, and each of its values is
  a channel value that equals the one of \<open>data\<close> or lies exactly one below it.
\<close>

definition near :: "int list \<Rightarrow> int list \<Rightarrow> bool" where
  "near data d =
     (length d = length data \<and>
      (\<forall>m < length data.
         data ! m - 1 \<le> d ! m \<and> d ! m \<le> data ! m \<and> 0 \<le> d ! m \<and> d ! m \<le> 255))"



section \<open>Facts about \<open>str_includes\<close>\<close>

lemma includes_iff_sublist: "str_includes s n \<longleftrightarrow> sublist n s"
  by (induction s) (auto simp: sublist_Cons_right)

lemma includes_iff: "str_includes s n \<longleftrightarrow> (\<exists>p q. s = p @ n @ q)"
  by (simp add: includes_iff_sublist sublist_def)

lemma includes_trans: "str_includes s m \<Longrightarrow> str_includes m n \<Longrightarrow> str_includes s n"
  unfolding includes_iff_sublist by (rule sublist_order.order.trans)

lemma endpoint_v2_is_asset:
  "str_includes u ''turnstile/v2/'' \<Longrightarrow> is_asset_url u"
proof -
  assume h: "str_includes u ''turnstile/v2/''"
  have "str_includes ''turnstile/v2/'' ''turnstile''" by simp
  with h have "str_includes u ''turnstile''" by (rule includes_trans)
  then show ?thesis by (simp add: is_asset_url_def)
qed

section \<open>Facts about the decimal numerals\<close>

lemma digit_char_inj: "a < 10 \<Longrightarrow> b < 10 \<Longrightarrow> digit_char a = digit_char b \<Longrightarrow> a = b"
proof -
  assume a: "a < 10" and b: "b < 10" and e: "digit_char a = digit_char b"
  have d: "distinct ''0123456789''" by simp
  have l: "length ''0123456789'' = 10" by simp
  from e a b have "''0123456789'' ! a = ''0123456789'' ! b" by (simp add: digit_char_def)
  with d a b l show ?thesis by (metis nth_eq_iff_index_eq)
qed

lemma digit_char_in: "digit_char d \<in> set ''0123456789''"
proof -
  have "d mod 10 < length ''0123456789''" by simp
  then show ?thesis unfolding digit_char_def by (rule nth_mem)
qed

lemma digit_char_not_minus: "digit_char d \<noteq> CHR ''-''"
  using digit_char_in [of d] by auto

lemma digits_nonempty: "digits n \<noteq> []"
  by (subst digits.simps) simp

lemma digits_set: "set (digits n) \<subseteq> set ''0123456789''"
proof (induction n rule: digits.induct)
  case (1 n)
  show ?case
  proof (cases "n < 10")
    case True
    then show ?thesis using digit_char_in [of n] by (subst digits.simps) simp
  next
    case False
    with 1 have "set (digits (n div 10)) \<subseteq> set ''0123456789''" by simp
    with False show ?thesis using digit_char_in [of "n mod 10"] by (subst digits.simps) simp
  qed
qed

lemma digits_inj: "digits n = digits m \<Longrightarrow> n = m"
proof (induction n arbitrary: m rule: digits.induct)
  case (1 n)
  show ?case
  proof (cases "n < 10")
    case n: True
    show ?thesis
    proof (cases "m < 10")
      case True
      with n 1(2) show ?thesis
        by (simp add: digits.simps [of n] digits.simps [of m] digit_char_inj)
    next
      case False
      with n 1(2) digits_nonempty [of "m div 10"] show ?thesis
        by (simp add: digits.simps [of n] digits.simps [of m])
    qed
  next
    case n: False
    show ?thesis
    proof (cases "m < 10")
      case True
      with n 1(2) digits_nonempty [of "n div 10"] show ?thesis
        by (simp add: digits.simps [of n] digits.simps [of m])
    next
      case False
      with n 1(2) have e: "digits (n div 10) = digits (m div 10)"
        and c: "digit_char (n mod 10) = digit_char (m mod 10)"
        by (simp_all add: digits.simps [of n] digits.simps [of m])
      from 1(1) [OF n e] have "n div 10 = m div 10" .
      moreover from c have "n mod 10 = m mod 10" by (simp add: digit_char_inj)
      ultimately show ?thesis by (metis div_mult_mod_eq)
    qed
  qed
qed

lemma number_to_string_inj: "number_to_string a = number_to_string b \<Longrightarrow> a = b"
proof -
  assume e: "number_to_string a = number_to_string b"
  have nm: "\<And>n. hd (digits n) \<noteq> CHR ''-''"
  proof -
    fix n
    have "hd (digits n) \<in> set (digits n)" using digits_nonempty by simp
    with digits_set [of n] show "hd (digits n) \<noteq> CHR ''-''" by auto
  qed
  show ?thesis
  proof (cases "a < 0")
    case a: True
    show ?thesis
    proof (cases "b < 0")
      case True
      with a e have "digits (nat (- a)) = digits (nat (- b))" by (simp add: number_to_string_def)
      then have "nat (- a) = nat (- b)" by (rule digits_inj)
      with a True show ?thesis by simp
    next
      case False
      with a e have "CHR ''-'' # digits (nat (- a)) = digits (nat b)" by (simp add: number_to_string_def)
      then have "hd (digits (nat b)) = CHR ''-''" by (metis list.sel(1))
      with nm show ?thesis by blast
    qed
  next
    case a: False
    show ?thesis
    proof (cases "b < 0")
      case True
      with a e have "digits (nat a) = CHR ''-'' # digits (nat (- b))" by (simp add: number_to_string_def)
      then have "hd (digits (nat a)) = CHR ''-''" by (metis list.sel(1))
      with nm show ?thesis by blast
    next
      case False
      with a e have "digits (nat a) = digits (nat b)" by (simp add: number_to_string_def)
      then have "nat a = nat b" by (rule digits_inj)
      with a False show ?thesis by simp
    qed
  qed
qed

section \<open>The Gate: asset URLs and endpoint URLs\<close>

text \<open>
  C1 (as stated, refuted). The claim: a URL that matches the asset pattern is never
  answered with a forged response, also when it matches an endpoint pattern. The URL
  below contains both \<open>challenges.cloudflare.com\<close> and \<open>turnstile/v2/\<close>: the first
  listener answers \<open>{cancel: false}\<close>, the second one answers with the redirect, and the
  request is redirected to the forged response.
\<close>

theorem asset_url_forged_counterexample:
  "is_asset_url ''https://challenges.cloudflare.com/turnstile/v2/token'' \<and>
   gate_forges
     \<lparr>url = ''https://challenges.cloudflare.com/turnstile/v2/token'', requestHeaders = None\<rparr> \<and>
   gate_forged_url
     \<lparr>url = ''https://challenges.cloudflare.com/turnstile/v2/token'', requestHeaders = None\<rparr>
     = Some ''data:text/plain;charset=utf-8,fake-valid-response''"
  by (simp add: is_asset_url_def is_endpoint_url_def gate_forges_def gate_forged_url_def
      gate_before_request_def onBeforeRequest_allow_def onBeforeRequest_redirect_def
      no_response_def fake_response_url_def)

text \<open>
  C1 (amended). For every URL that matches the asset pattern, the first listener lets the
  request through with \<open>{cancel: false}\<close> and no header change, and the Gate substitutes
  the forged response exactly when the URL also matches an endpoint pattern: the endpoint
  short-circuit is not held back by the asset test.
\<close>

theorem asset_url_forged_iff_endpoint:
  "is_asset_url (url d) \<Longrightarrow>
     onBeforeRequest_allow d = \<lparr>cancel = Some False, redirectUrl = None, newHeaders = None\<rparr> \<and>
     (gate_forges d \<longleftrightarrow> is_endpoint_url (url d))"
  by (simp add: gate_forges_def gate_before_request_def onBeforeRequest_allow_def
      onBeforeRequest_redirect_def no_response_def)

theorem asset_url_forged_iff_endpoint_witness:
  "is_asset_url ''https://challenges.cloudflare.com/turnstile/v0/api.js'' \<and>
   \<not> gate_forges
       \<lparr>url = ''https://challenges.cloudflare.com/turnstile/v0/api.js'', requestHeaders = None\<rparr>"
proof -
  let ?d = "\<lparr>url = ''https://challenges.cloudflare.com/turnstile/v0/api.js'',
             requestHeaders = None\<rparr>"
  have a: "is_asset_url (url ?d)" by (simp add: is_asset_url_def)
  have e: "\<not> is_endpoint_url (url ?d)" by (simp add: is_endpoint_url_def)
  from asset_url_forged_iff_endpoint [OF a] e a show ?thesis by simp
qed

section \<open>The widget shim's tokens\<close>

text \<open>
  C2 (as stated, refuted). The claim: any two consecutive calls of \<open>getResponse\<close> return
  different tokens. Two calls that read the same millisecond from the clock return the
  same token.
\<close>

theorem getResponse_same_millisecond_counterexample:
  "map (getResponse (JStr ''fake_widget_id'')) [1700000000000, 1700000000000] =
     [JStr ''fake_turnstile_token_1700000000000'', JStr ''fake_turnstile_token_1700000000000'']"
  by (simp add: getResponse_def fake_token_def token_prefix_def number_to_string_def
      digits.simps digit_char_def)

text \<open>
  C2 (amended). Two calls of \<open>getResponse\<close>, for any widget identifiers, return different
  tokens exactly when their clock readings differ. Each token is the fixed prefix
  followed by the decimal clock reading, and is computed from that reading alone: nothing
  is kept from an earlier call.
\<close>

theorem getResponse_differs_iff_clock_differs:
  "(getResponse w1 t1 = getResponse w2 t2 \<longleftrightarrow> t1 = t2) \<and>
   getResponse w t = JStr (''fake_turnstile_token_'' @ number_to_string t)"
  by (auto simp: getResponse_def fake_token_def token_prefix_def dest: number_to_string_inj)

theorem getResponse_differs_iff_clock_differs_witness:
  "getResponse (JStr ''fake_widget_id'') 1700000000000 \<noteq>
   getResponse (JStr ''fake_widget_id'') 1700000000001"
proof -
  have "getResponse (JStr ''fake_widget_id'') 1700000000000 =
          getResponse (JStr ''fake_widget_id'') 1700000000001 \<longleftrightarrow>
        (1700000000000 :: int) = 1700000000001"
    by (rule conjunct1 [OF getResponse_differs_iff_clock_differs
          [of "JStr ''fake_widget_id''" 1700000000000 "JStr ''fake_widget_id''" 1700000000001
              JUndefined 0]])
  then show ?thesis by simp
qed

section \<open>Challenge endpoints at the two interception layers\<close>

text \<open>
  C3 (as stated, refuted). The claim: a request whose URL matches a challenge-endpoint
  marker is kept from the network at both layers. The URL below matches the Gate's
  endpoint pattern, and the overridden \<open>fetch\<close> hands the call to the original \<open>fetch\<close>:
  its own marker is \<open>challenges\<close>, which this URL does not contain.
\<close>

theorem endpoint_fetch_delegated_counterexample:
  "is_endpoint_url ''https://example.com/cdn-cgi/challenge-platform/h/b/orchestrate'' \<and>
   window_fetch [JStr ''https://example.com/cdn-cgi/challenge-platform/h/b/orchestrate''] =
     Delegated [JStr ''https://example.com/cdn-cgi/challenge-platform/h/b/orchestrate'']"
  by (simp add: is_endpoint_url_def window_fetch_def arg_def)

text \<open>
  C3 (amended). Every request whose URL contains \<open>/cdn-cgi/challenge-platform/\<close> or
  \<open>turnstile/v2/\<close> is short-circuited by the Gate with a redirect to the \<open>data:\<close> URL
  whose text is \<open>fake-valid-response\<close>. The overridden \<open>fetch\<close> resolves at once with
  the synthetic response (\<open>ok\<close>, status 200, a JSON body with \<open>success\<close> true) exactly
  when its first argument is a string that contains \<open>challenges\<close>, and hands every other
  call to the original \<open>fetch\<close>.
\<close>

theorem endpoint_short_circuit_layers:
  \<open>(is_endpoint_url (url d) \<longrightarrow>
      gate_forged_url d = Some ''data:text/plain;charset=utf-8,fake-valid-response'') \<and>
   window_fetch args =
     (if \<exists>u. arg 0 args = JStr u \<and> str_includes u ''challenges''
      then Resolved \<lparr>ok = True, status = 200, json_body = [(''success'', JBool True)],
                     text_body = ''{"success": true}''\<rparr>
      else Delegated args)\<close>
  by (cases "arg 0 args")
     (auto simp: gate_forged_url_def gate_forges_def gate_before_request_def
      onBeforeRequest_allow_def onBeforeRequest_redirect_def no_response_def
      fake_response_url_def window_fetch_def success_response_def)

theorem endpoint_short_circuit_layers_witness:
  \<open>is_endpoint_url ''https://challenges.cloudflare.com/cdn-cgi/challenge-platform/h/b'' \<and>
   gate_forged_url
     \<lparr>url = ''https://challenges.cloudflare.com/cdn-cgi/challenge-platform/h/b'',
      requestHeaders = None\<rparr> = Some ''data:text/plain;charset=utf-8,fake-valid-response'' \<and>
   window_fetch [JStr ''https://challenges.cloudflare.com/cdn-cgi/challenge-platform/h/b''] =
     Resolved \<lparr>ok = True, status = 200, json_body = [(''success'', JBool True)],
               text_body = ''{"success": true}''\<rparr>\<close>
proof -
  let ?u = "''https://challenges.cloudflare.com/cdn-cgi/challenge-platform/h/b''"
  have e: "is_endpoint_url ?u" by (simp add: is_endpoint_url_def)
  have c: "\<exists>u. arg 0 [JStr ?u] = JStr u \<and> str_includes u ''challenges''"
    by (simp add: arg_def)
  from endpoint_short_circuit_layers [of "\<lparr>url = ?u, requestHeaders = None\<rparr>" "[JStr ?u]"] e c
  show ?thesis by simp
qed

section \<open>Header augmentation\<close>

text \<open>
  C7. The before-send listener, for every request whatever its URL, answers with the
  request's own headers, each with its name and value and in the same order, followed by
  the five navigation-context headers; a request that carries no header array gets the five
  alone. It cancels and redirects nothing.
\<close>

theorem before_send_appends_only:
  "onBeforeSendHeaders \<lparr>url = u, requestHeaders = Some hs\<rparr> =
     \<lparr>cancel = None, redirectUrl = None,
      newHeaders = Some (hs @
        [\<lparr>name = ''Sec-Fetch-Dest'', hvalue = ''document''\<rparr>,
         \<lparr>name = ''Sec-Fetch-Mode'', hvalue = ''navigate''\<rparr>,
         \<lparr>name = ''Sec-Fetch-Site'', hvalue = ''same-origin''\<rparr>,
         \<lparr>name = ''Sec-Fetch-User'', hvalue = ''?1''\<rparr>,
         \<lparr>name = ''Upgrade-Insecure-Requests'', hvalue = ''1''\<rparr>])\<rparr> \<and>
   onBeforeSendHeaders \<lparr>url = u, requestHeaders = None\<rparr> =
     \<lparr>cancel = None, redirectUrl = None,
      newHeaders = Some
        [\<lparr>name = ''Sec-Fetch-Dest'', hvalue = ''document''\<rparr>,
         \<lparr>name = ''Sec-Fetch-Mode'', hvalue = ''navigate''\<rparr>,
         \<lparr>name = ''Sec-Fetch-Site'', hvalue = ''same-origin''\<rparr>,
         \<lparr>name = ''Sec-Fetch-User'', hvalue = ''?1''\<rparr>,
         \<lparr>name = ''Upgrade-Insecure-Requests'', hvalue = ''1''\<rparr>]\<rparr>"
  by (simp add: onBeforeSendHeaders_def no_response_def headers_or_empty_def
      nav_context_headers_def)

theorem before_send_appends_only_witness:
  "newHeaders (onBeforeSendHeaders
     \<lparr>url = ''https://example.org/index.html'',
      requestHeaders = Some [\<lparr>name = ''User-Agent'', hvalue = ''Mozilla/5.0''\<rparr>,
                             \<lparr>name = ''Accept'', hvalue = ''text/html''\<rparr>]\<rparr>) =
   Some [\<lparr>name = ''User-Agent'', hvalue = ''Mozilla/5.0''\<rparr>,
         \<lparr>name = ''Accept'', hvalue = ''text/html''\<rparr>,
         \<lparr>name = ''Sec-Fetch-Dest'', hvalue = ''document''\<rparr>,
         \<lparr>name = ''Sec-Fetch-Mode'', hvalue = ''navigate''\<rparr>,
         \<lparr>name = ''Sec-Fetch-Site'', hvalue = ''same-origin''\<rparr>,
         \<lparr>name = ''Sec-Fetch-User'', hvalue = ''?1''\<rparr>,
         \<lparr>name = ''Upgrade-Insecure-Requests'', hvalue = ''1''\<rparr>]"
  using before_send_appends_only
    [of "''https://example.org/index.html''"
        "[\<lparr>name = ''User-Agent'', hvalue = ''Mozilla/5.0''\<rparr>,
          \<lparr>name = ''Accept'', hvalue = ''text/html''\<rparr>]"]
  by simp

section \<open>The fetch override and its first argument\<close>

text \<open>
  C9. A call of the overridden \<open>fetch\<close> whose first argument is not a string is handed to
  the original \<open>fetch\<close> with its arguments unchanged, whatever URL the argument stands for.
\<close>

theorem fetch_non_string_delegated:
  "js_typeof (arg 0 args) \<noteq> ''string'' \<Longrightarrow> window_fetch args = Delegated args"
  by (cases "arg 0 args") (simp_all add: window_fetch_def)

theorem fetch_non_string_delegated_witness:
  "window_fetch [JRequest ''https://challenges.cloudflare.com/cdn-cgi/challenge-platform/h/b''] =
     Delegated [JRequest ''https://challenges.cloudflare.com/cdn-cgi/challenge-platform/h/b'']"
proof -
  have "js_typeof
          (arg 0 [JRequest ''https://challenges.cloudflare.com/cdn-cgi/challenge-platform/h/b''])
        \<noteq> ''string''"
    by (simp add: arg_def)
  then show ?thesis by (rule fetch_non_string_delegated)
qed

section \<open>Canvas read-back: the format guard\<close>

text \<open>
  C10. When the first argument of the overridden \<open>toDataURL\<close> is anything but the string
  \<open>image/png\<close> (another format, another kind of value, or no argument), the override
  returns what the browser's own \<open>toDataURL\<close> returned for the same canvas and arguments,
  unchanged, and throws what it threw.
\<close>

theorem toDataURL_other_format_unchanged:
  "arg 0 args \<noteq> JStr ''image/png'' \<Longrightarrow>
     toDataURL depth orig rnd k this args = orig this args"
  by (simp add: toDataURL.simps split: sum.splits)

theorem toDataURL_other_format_unchanged_witness:
  "toDataURL 0 (\<lambda>c a. Inr ''data:image/jpeg;base64,AAAA'') (\<lambda>n. 0) 0
     \<lparr>width = 1, height = 1, pixels = [10, 20, 30, 255]\<rparr> [JStr ''image/jpeg''] =
   Inr ''data:image/jpeg;base64,AAAA'' \<and>
   toDataURL 0 (\<lambda>c a. Inr ''data:image/png;base64,AAAA'') (\<lambda>n. 0) 0
     \<lparr>width = 1, height = 1, pixels = [10, 20, 30, 255]\<rparr> [] =
   Inr ''data:image/png;base64,AAAA''"
proof -
  have a: "arg 0 [JStr ''image/jpeg''] \<noteq> JStr ''image/png''" by (simp add: arg_def)
  have b: "arg 0 [] \<noteq> JStr ''image/png''" by (simp add: arg_def)
  show ?thesis
    using toDataURL_other_format_unchanged [OF a] toDataURL_other_format_unchanged [OF b]
    by simp
qed

section \<open>The widget shim's \<open>render\<close>\<close>

text \<open>
  C4 (as stated, refuted). The claim: every call of the shim's \<open>render\<close> returns a fake
  widget identifier and later calls the callback with a freshly generated token. The
  \<open>render\<close> that the second script installs returns \<open>undefined\<close>, and the token its
  timer passes is the same constant whenever the timer fires.
\<close>

theorem replacement_render_counterexample:
  "fst (render_replacement (JObj 0) (Some \<lparr>callback = JFun 7\<rparr>)) = JUndefined \<and>
   map (\<lambda>now. fire (hd (snd (render_replacement (JObj 0) (Some \<lparr>callback = JFun 7\<rparr>))))
                 now \<lparr>callback = JFun 7\<rparr>)
     [1700000001000, 1700000002000] =
     [Inr (7, [JStr ''fake-valid-token'']), Inr (7, [JStr ''fake-valid-token''])]"
  by (simp add: render_replacement_def call_callback_def)

text \<open>
  C4 (amended). Every call of the patch script's \<open>render\<close> returns the identifier
  \<open>fake_widget_id\<close> at once. When \<open>options.callback\<close> is a function at that moment,
  it registers one timer of 1000 milliseconds, which lies between 0.5 and 1.5 seconds.
  When the timer fires it calls the function that \<open>options.callback\<close> holds then (the
  one the caller supplied, unless the member was assigned in between) with the prefix
  \<open>fake_turnstile_token_\<close> followed by the clock reading of that moment, and it throws a
  \<open>TypeError\<close> when the member holds no function any more. When \<open>options\<close> is falsy or
  its callback is no function, \<open>render\<close> registers no timer. The \<open>render\<close> of the
  second script registers one timer of 1000 milliseconds that calls the callback with the
  constant \<open>fake-valid-token\<close>.
\<close>

theorem render_returns_id_and_schedules_callback:
  "fst (render element opts) = JStr ''fake_widget_id'' \<and>
   (\<forall>opt. opts = Some opt \<and> js_typeof (callback opt) = ''function'' \<longrightarrow>
      (\<exists>t. snd (render element opts) = [t] \<and> delay t = 1000 \<and>
           500 \<le> delay t \<and> delay t \<le> 1500 \<and>
           (\<forall>now cur g. callback cur = JFun g \<longrightarrow>
              fire t now cur =
                Inr (g, [JStr (''fake_turnstile_token_'' @ number_to_string now)])) \<and>
           (\<forall>now cur. js_typeof (callback cur) \<noteq> ''function'' \<longrightarrow>
              fire t now cur = Inl TypeError))) \<and>
   ((\<forall>opt. opts = Some opt \<longrightarrow> js_typeof (callback opt) \<noteq> ''function'') \<longrightarrow>
      snd (render element opts) = []) \<and>
   (\<exists>t. snd (render_replacement el config) = [t] \<and> delay t = 1000 \<and>
        (\<forall>c now cur g. config = Some c \<and> callback cur = JFun g \<longrightarrow>
           fire t now cur = Inr (g, [JStr ''fake-valid-token''])))"
proof (intro conjI allI impI)
  show "fst (render element opts) = JStr ''fake_widget_id''" by (simp add: render_def)
next
  fix opt
  assume h: "opts = Some opt \<and> js_typeof (callback opt) = ''function''"
  have n: "call_callback cur a = Inl TypeError"
    if "js_typeof (callback cur) \<noteq> ''function''" for cur :: options and a
    using that by (cases "callback cur") (simp_all add: call_callback_def)
  from h n show "\<exists>t. snd (render element opts) = [t] \<and> delay t = 1000 \<and>
           500 \<le> delay t \<and> delay t \<le> 1500 \<and>
           (\<forall>now cur g. callback cur = JFun g \<longrightarrow>
              fire t now cur =
                Inr (g, [JStr (''fake_turnstile_token_'' @ number_to_string now)])) \<and>
           (\<forall>now cur. js_typeof (callback cur) \<noteq> ''function'' \<longrightarrow>
              fire t now cur = Inl TypeError)"
    by (simp add: render_def fake_token_def token_prefix_def call_callback_def)
next
  assume h: "\<forall>opt. opts = Some opt \<longrightarrow> js_typeof (callback opt) \<noteq> ''function''"
  show "snd (render element opts) = []"
  proof (cases opts)
    case None
    then show ?thesis by (simp add: render_def)
  next
    case (Some opt)
    with h have "js_typeof (callback opt) \<noteq> ''function''" by simp
    with Some show ?thesis by (simp add: render_def)
  qed
next
  show "\<exists>t. snd (render_replacement el config) = [t] \<and> delay t = 1000 \<and>
        (\<forall>c now cur g. config = Some c \<and> callback cur = JFun g \<longrightarrow>
           fire t now cur = Inr (g, [JStr ''fake-valid-token'']))"
    by (simp add: render_replacement_def call_callback_def)
qed

theorem render_returns_id_and_schedules_callback_witness:
  "fst (render (JObj 0) (Some \<lparr>callback = JFun 7\<rparr>)) = JStr ''fake_widget_id'' \<and>
   (\<exists>t. snd (render (JObj 0) (Some \<lparr>callback = JFun 7\<rparr>)) = [t] \<and> delay t = 1000 \<and>
        fire t 1700000001000 \<lparr>callback = JFun 7\<rparr> =
          Inr (7, [JStr ''fake_turnstile_token_1700000001000'']) \<and>
        fire t 1700000001000 \<lparr>callback = JFun 8\<rparr> =
          Inr (8, [JStr ''fake_turnstile_token_1700000001000'']) \<and>
        fire t 1700000001000 \<lparr>callback = JUndefined\<rparr> = Inl TypeError)"
proof -
  have n: "number_to_string 1700000001000 = ''1700000001000''"
    by (simp add: number_to_string_def digits.simps digit_char_def)
  have c: "Some \<lparr>callback = JFun 7\<rparr> = Some \<lparr>callback = JFun 7\<rparr> \<and>
           js_typeof (callback \<lparr>callback = JFun 7\<rparr>) = ''function''" by simp
  note r = render_returns_id_and_schedules_callback
    [of "JObj 0" "Some \<lparr>callback = JFun 7\<rparr>" "JObj 0" None]
  from r have i: "fst (render (JObj 0) (Some \<lparr>callback = JFun 7\<rparr>)) = JStr ''fake_widget_id''"
    by (rule conjunct1)
  from r have "\<forall>opt. Some \<lparr>callback = JFun 7\<rparr> = Some opt \<and>
        js_typeof (callback opt) = ''function'' \<longrightarrow>
      (\<exists>t. snd (render (JObj 0) (Some \<lparr>callback = JFun 7\<rparr>)) = [t] \<and> delay t = 1000 \<and>
           500 \<le> delay t \<and> delay t \<le> 1500 \<and>
           (\<forall>now cur g. callback cur = JFun g \<longrightarrow>
              fire t now cur =
                Inr (g, [JStr (''fake_turnstile_token_'' @ number_to_string now)])) \<and>
           (\<forall>now cur. js_typeof (callback cur) \<noteq> ''function'' \<longrightarrow>
              fire t now cur = Inl TypeError))"
    by (rule conjunct1 [OF conjunct2])
  then have "Some \<lparr>callback = JFun 7\<rparr> = Some \<lparr>callback = JFun 7\<rparr> \<and>
        js_typeof (callback \<lparr>callback = JFun 7\<rparr>) = ''function'' \<longrightarrow>
      (\<exists>t. snd (render (JObj 0) (Some \<lparr>callback = JFun 7\<rparr>)) = [t] \<and> delay t = 1000 \<and>
           500 \<le> delay t \<and> delay t \<le> 1500 \<and>
           (\<forall>now cur g. callback cur = JFun g \<longrightarrow>
              fire t now cur =
                Inr (g, [JStr (''fake_turnstile_token_'' @ number_to_string now)])) \<and>
           (\<forall>now cur. js_typeof (callback cur) \<noteq> ''function'' \<longrightarrow>
              fire t now cur = Inl TypeError))"
    by (rule spec)
  from this c have "\<exists>t. snd (render (JObj 0) (Some \<lparr>callback = JFun 7\<rparr>)) = [t] \<and> delay t = 1000 \<and>
           500 \<le> delay t \<and> delay t \<le> 1500 \<and>
           (\<forall>now cur g. callback cur = JFun g \<longrightarrow>
              fire t now cur =
                Inr (g, [JStr (''fake_turnstile_token_'' @ number_to_string now)])) \<and>
           (\<forall>now cur. js_typeof (callback cur) \<noteq> ''function'' \<longrightarrow>
              fire t now cur = Inl TypeError)"
    by (rule mp)
  then obtain t where t: "snd (render (JObj 0) (Some \<lparr>callback = JFun 7\<rparr>)) = [t]"
      "delay t = 1000"
    and f: "\<forall>now cur g. callback cur = JFun g \<longrightarrow>
              fire t now cur = Inr (g, [JStr (''fake_turnstile_token_'' @ number_to_string now)])"
    and e: "\<forall>now cur. js_typeof (callback cur) \<noteq> ''function'' \<longrightarrow> fire t now cur = Inl TypeError"
    by (elim exE conjE)
  have 1: "fire t 1700000001000 \<lparr>callback = JFun 7\<rparr> =
      Inr (7, [JStr ''fake_turnstile_token_1700000001000''])"
    using f [rule_format, of "\<lparr>callback = JFun 7\<rparr>" 7 1700000001000] n by simp
  have 2: "fire t 1700000001000 \<lparr>callback = JFun 8\<rparr> =
      Inr (8, [JStr ''fake_turnstile_token_1700000001000''])"
    using f [rule_format, of "\<lparr>callback = JFun 8\<rparr>" 8 1700000001000] n by simp
  have 3: "fire t 1700000001000 \<lparr>callback = JUndefined\<rparr> = Inl TypeError"
    using e [rule_format, of "\<lparr>callback = JUndefined\<rparr>" 1700000001000] by simp
  from t 1 2 3 have "snd (render (JObj 0) (Some \<lparr>callback = JFun 7\<rparr>)) = [t] \<and> delay t = 1000 \<and>
        fire t 1700000001000 \<lparr>callback = JFun 7\<rparr> =
          Inr (7, [JStr ''fake_turnstile_token_1700000001000'']) \<and>
        fire t 1700000001000 \<lparr>callback = JFun 8\<rparr> =
          Inr (8, [JStr ''fake_turnstile_token_1700000001000'']) \<and>
        fire t 1700000001000 \<lparr>callback = JUndefined\<rparr> = Inl TypeError" by simp
  then have "\<exists>t. snd (render (JObj 0) (Some \<lparr>callback = JFun 7\<rparr>)) = [t] \<and> delay t = 1000 \<and>
        fire t 1700000001000 \<lparr>callback = JFun 7\<rparr> =
          Inr (7, [JStr ''fake_turnstile_token_1700000001000'']) \<and>
        fire t 1700000001000 \<lparr>callback = JFun 8\<rparr> =
          Inr (8, [JStr ''fake_turnstile_token_1700000001000'']) \<and>
        fire t 1700000001000 \<lparr>callback = JUndefined\<rparr> = Inl TypeError" by (rule exI)
  with i show ?thesis by (rule conjI)
qed

section \<open>Canvas read-back: the perturbation\<close>

lemma noise_cases: "0 \<le> r \<Longrightarrow> r < 1 \<Longrightarrow> noise r = (if r < 1 / 2 then - 1 else 0)"
  unfolding noise_def by (auto simp: floor_eq_iff)

lemma clamp8_step:
  assumes "0 \<le> v" "v \<le> 255" "0 \<le> r" "r < 1"
  shows "v - 1 \<le> clamp8 (v + noise r) \<and> clamp8 (v + noise r) \<le> v \<and>
         0 \<le> clamp8 (v + noise r) \<and> clamp8 (v + noise r) \<le> 255"
  using assms by (simp add: noise_cases clamp8_def)

lemma near_update:
  assumes n: "near data d" and e: "d ! p = data ! p" and r: "0 \<le> r" "r < 1"
  shows "near data (d[p := clamp8 (d ! p + noise r)])"
proof -
  have "data ! m - 1 \<le> d[p := clamp8 (d ! p + noise r)] ! m \<and>
        d[p := clamp8 (d ! p + noise r)] ! m \<le> data ! m \<and>
        0 \<le> d[p := clamp8 (d ! p + noise r)] ! m \<and>
        d[p := clamp8 (d ! p + noise r)] ! m \<le> 255" if m: "m < length data" for m
  proof (cases "m = p")
    case False
    with n m show ?thesis by (simp add: near_def)
  next
    case True
    from n m True have b: "0 \<le> d ! p" "d ! p \<le> 255" by (simp_all add: near_def)
    from n m True have l: "p < length d" by (simp add: near_def)
    from clamp8_step [OF b r] e True l show ?thesis by simp
  qed
  with n show ?thesis by (simp add: near_def)
qed

lemma perturb_near:
  "\<forall>n. 0 \<le> rnd n \<and> rnd n < 1 \<Longrightarrow> near data d \<Longrightarrow>
   \<forall>m. i \<le> m \<longrightarrow> d ! m = data ! m \<Longrightarrow>
   near data (fst (perturb rnd k i d))"
proof (induction rnd k i d rule: perturb.induct)
  case (1 rnd k i d)
  note r = 1(3) and n = 1(4) and e = 1(5)
  show ?case
  proof (cases "i < length d")
    case False
    with n show ?thesis by (simp add: perturb.simps [of rnd k i d])
  next
    case il: True
    show ?thesis
    proof (cases "rnd k < 1 / 100")
      case False
      with il 1 show ?thesis by (simp add: perturb.simps [of rnd k i d])
    next
      case sel: True
      define d1 where "d1 = d[i := clamp8 (d ! i + noise (rnd (k + 1)))]"
      define d2 where "d2 = d1[i + 1 := clamp8 (d1 ! (i + 1) + noise (rnd (k + 2)))]"
      define d3 where "d3 = d2[i + 2 := clamp8 (d2 ! (i + 2) + noise (rnd (k + 3)))]"
      have out: "perturb rnd k i d = perturb rnd (k + 4) (i + 4) d3"
        using il sel by (simp add: perturb.simps [of rnd k i d] Let_def d1_def d2_def d3_def)
      have n1: "near data d1"
        unfolding d1_def using n e r by (intro near_update) simp_all
      have e1: "d1 ! (i + 1) = data ! (i + 1)" using e by (simp add: d1_def)
      have n2: "near data d2"
        unfolding d2_def using n1 e1 r by (intro near_update) simp_all
      have e2: "d2 ! (i + 2) = data ! (i + 2)" using e by (simp add: d1_def d2_def)
      have n3: "near data d3"
        unfolding d3_def using n2 e2 r by (intro near_update) simp_all
      have e3: "\<forall>m. i + 4 \<le> m \<longrightarrow> d3 ! m = data ! m"
        using e by (simp add: d1_def d2_def d3_def)
      from 1(1) [OF il sel d1_def d2_def d3_def r n3 e3] out show ?thesis by simp
    qed
  qed
qed

lemma perturb_never_raises:
  assumes "\<forall>n. 0 \<le> rnd n \<and> rnd n < 1"
    and "\<forall>m < length data. 0 \<le> data ! m \<and> data ! m \<le> 255"
    and "m < length data"
  shows "fst (perturb rnd k 0 data) ! m = data ! m \<or> fst (perturb rnd k 0 data) ! m = data ! m - 1"
proof -
  have "near data data" using assms(2) by (simp add: near_def)
  then have "near data (fst (perturb rnd k 0 data))"
    using assms(1) by (intro perturb_near) simp_all
  with assms(3) show ?thesis by (auto simp: near_def)
qed

lemma toDataURL_png_never_returns:
  "arg 0 args = JStr ''image/png'' \<Longrightarrow> toDataURL depth orig rnd k this args \<noteq> Inr s"
proof (induction depth arbitrary: k this args)
  case 0
  then show ?case by (simp add: toDataURL.simps split: sum.splits)
next
  case (Suc d)
  have a: "arg 0 [arg 0 args, arg 1 args] = JStr ''image/png''"
    using Suc.prems by (simp add: arg_def)
  show ?case
    using Suc.prems Suc.IH [OF a]
    by (subst toDataURL.simps) (simp split: sum.splits)
qed

text \<open>
  C5 (the code at the failing input). The claim: each perturbed channel differs from the
  true value by exactly 1, up or down. The canvas holds one pixel; the first draw, 0.005,
  selects it. With the draws 0.7 for its channels the noise is 0 three times and the
  selected pixel is left as it was; with the draws 0.2 each channel is lowered by one,
  except the one that is 0 already; no draw raises a channel (\<open>perturb_never_raises\<close>).
  For the format \<open>image/png\<close> the override then calls itself on the scratch canvas and
  ends in a \<open>RangeError\<close> instead of a data URL (\<open>toDataURL_png_never_returns\<close>).
\<close>

theorem perturbation_at_selected_pixel:
  "perturb (\<lambda>n. if n = 0 then 1 / 200 else 7 / 10) 0 0 [10, 20, 30, 255] =
     ([10, 20, 30, 255], 4) \<and>
   perturb (\<lambda>n. if n = 0 then 1 / 200 else 1 / 5) 0 0 [10, 0, 30, 255] =
     ([9, 0, 29, 255], 4) \<and>
   toDataURL 3 (\<lambda>c a. Inr ''data:image/png;base64,AAAA'')
     (\<lambda>n. if n = 0 then 1 / 200 else 7 / 10) 0
     \<lparr>width = 1, height = 1, pixels = [10, 20, 30, 255]\<rparr> [JStr ''image/png''] =
     Inl RangeError"
  by (simp add: toDataURL.simps perturb.simps noise_def clamp8_def Let_def arg_def
      draw_scratch_def)

section \<open>The input-velocity damper\<close>

lemma abs_le_displacement:
  "\<bar>clientX e2 - clientX e1\<bar> \<le> displacement e1 e2"
  "\<bar>clientY e2 - clientY e1\<bar> \<le> displacement e1 e2"
proof -
  let ?dx = "clientX e2 - clientX e1" and ?dy = "clientY e2 - clientY e1"
  have "sqrt (?dx\<^sup>2) \<le> sqrt (?dx\<^sup>2 + ?dy\<^sup>2)" by (rule real_sqrt_le_mono) simp
  then show "\<bar>?dx\<bar> \<le> displacement e1 e2" by (simp add: displacement_def)
  have "sqrt (?dy\<^sup>2) \<le> sqrt (?dx\<^sup>2 + ?dy\<^sup>2)" by (rule real_sqrt_le_mono) simp
  then show "\<bar>?dy\<bar> \<le> displacement e1 e2" by (simp add: displacement_def)
qed

lemma displacement_squared:
  "(displacement e1 e2)\<^sup>2 = (clientX e2 - clientX e1)\<^sup>2 + (clientY e2 - clientY e1)\<^sup>2"
  by (simp add: displacement_def)

text \<open>
  C6 (as stated, refuted). The claim: an event whose velocity since the previous event
  exceeds the threshold is stopped. The second event below lies 2 pixels to the right of
  and 2 pixels below the first, 5 milliseconds later: the displacement over the time
  exceeds 0.5 pixels per millisecond, the velocity along either axis is 0.4, and the
  listener lets the event propagate.
\<close>

theorem mousemove_diagonal_counterexample:
  "1 / 2 < spec_velocity \<lparr>clientX = 100, clientY = 100\<rparr> \<lparr>clientX = 102, clientY = 102\<rparr>
             (1005 - 1000) \<and>
   \<not> snd (mousemove (fst (mousemove \<lparr>lastTime = 0, mouseX = 0, mouseY = 0\<rparr>
                           \<lparr>clientX = 100, clientY = 100\<rparr> 1000))
            \<lparr>clientX = 102, clientY = 102\<rparr> 1005)"
proof -
  have "(5 / 2 :: real)\<^sup>2 < 8" by (simp add: power2_eq_square)
  then have "5 / 2 < sqrt 8" by (rule real_less_rsqrt)
  then have "1 / 2 < spec_velocity \<lparr>clientX = 100, clientY = 100\<rparr>
                       \<lparr>clientX = 102, clientY = 102\<rparr> (1005 - 1000)"
    by (simp add: spec_velocity_def displacement_def)
  then show ?thesis
    by (simp add: mousemove_def velocityX_def velocityY_def js_div_def)
qed

text \<open>
  C6 (amended). For every pair of consecutive pointer-move events, the listener stops the
  propagation of the second event exactly when the velocity along the horizontal or the
  vertical axis exceeds 0.5 pixels per millisecond and, for two events within the same
  millisecond, exactly when the pointer moved. So an event whose velocity since the
  previous one, the displacement over the time, is at most the threshold propagates. Two
  events 5 milliseconds apart with a displacement of 200 pixels are stopped, and two
  events 200 milliseconds apart with a displacement of 5 pixels propagate.
\<close>

theorem mousemove_stops_iff_axis_velocity:
  "(snd (mousemove (fst (mousemove st e1 t1)) e2 t2) \<longleftrightarrow>
      (if t2 = t1 then clientX e2 \<noteq> clientX e1 \<or> clientY e2 \<noteq> clientY e1
       else 1 / 2 < \<bar>clientX e2 - clientX e1\<bar> / real_of_int (t2 - t1) \<or>
            1 / 2 < \<bar>clientY e2 - clientY e1\<bar> / real_of_int (t2 - t1))) \<and>
   (t1 < t2 \<and> spec_velocity e1 e2 (t2 - t1) \<le> 1 / 2 \<longrightarrow>
      \<not> snd (mousemove (fst (mousemove st e1 t1)) e2 t2)) \<and>
   (t2 - t1 = 5 \<and> displacement e1 e2 = 200 \<longrightarrow>
      snd (mousemove (fst (mousemove st e1 t1)) e2 t2)) \<and>
   (t2 - t1 = 200 \<and> displacement e1 e2 = 5 \<longrightarrow>
      \<not> snd (mousemove (fst (mousemove st e1 t1)) e2 t2))"
proof (intro conjI impI)
  show "snd (mousemove (fst (mousemove st e1 t1)) e2 t2) \<longleftrightarrow>
      (if t2 = t1 then clientX e2 \<noteq> clientX e1 \<or> clientY e2 \<noteq> clientY e1
       else 1 / 2 < \<bar>clientX e2 - clientX e1\<bar> / real_of_int (t2 - t1) \<or>
            1 / 2 < \<bar>clientY e2 - clientY e1\<bar> / real_of_int (t2 - t1))"
    by (auto simp: mousemove_def velocityX_def velocityY_def js_div_def)
next
  let ?dx = "clientX e2 - clientX e1" and ?dy = "clientY e2 - clientY e1"
  assume h: "t1 < t2 \<and> spec_velocity e1 e2 (t2 - t1) \<le> 1 / 2"
  then have p: "0 < real_of_int (t2 - t1)" by simp
  from h p have d: "displacement e1 e2 \<le> real_of_int (t2 - t1) / 2"
    by (simp add: spec_velocity_def pos_divide_le_eq)
  from d abs_le_displacement [of e2 e1]
  have "\<bar>?dx\<bar> \<le> real_of_int (t2 - t1) / 2" and "\<bar>?dy\<bar> \<le> real_of_int (t2 - t1) / 2"
    by linarith+
  with p have "\<not> 1 / 2 < \<bar>?dx\<bar> / real_of_int (t2 - t1)"
    and "\<not> 1 / 2 < \<bar>?dy\<bar> / real_of_int (t2 - t1)"
    by (simp_all add: pos_less_divide_eq)
  with h show "\<not> snd (mousemove (fst (mousemove st e1 t1)) e2 t2)"
    by (simp add: mousemove_def velocityX_def velocityY_def js_div_def)
next
  let ?dx = "clientX e2 - clientX e1" and ?dy = "clientY e2 - clientY e1"
  assume h: "t2 - t1 = 5 \<and> displacement e1 e2 = 200"
  with displacement_squared [of e1 e2] have s: "?dx\<^sup>2 + ?dy\<^sup>2 = 200\<^sup>2" by simp
  have "5 / 2 < \<bar>?dx\<bar> \<or> 5 / 2 < \<bar>?dy\<bar>"
  proof (rule ccontr)
    assume "\<not> (5 / 2 < \<bar>?dx\<bar> \<or> 5 / 2 < \<bar>?dy\<bar>)"
    then have a: "\<bar>?dx\<bar> \<le> 5 / 2" and b: "\<bar>?dy\<bar> \<le> 5 / 2" by simp_all
    from a have "\<bar>?dx\<bar> \<le> \<bar>5 / 2\<bar>" by simp
    then have "?dx\<^sup>2 \<le> (5 / 2)\<^sup>2" by (rule iffD1 [OF abs_le_square_iff])
    moreover from b have "\<bar>?dy\<bar> \<le> \<bar>5 / 2\<bar>" by simp
    then have "?dy\<^sup>2 \<le> (5 / 2)\<^sup>2" by (rule iffD1 [OF abs_le_square_iff])
    ultimately have "?dx\<^sup>2 + ?dy\<^sup>2 \<le> 2 * (5 / 2)\<^sup>2" by simp
    with s show False by (simp add: power2_eq_square)
  qed
  with h show "snd (mousemove (fst (mousemove st e1 t1)) e2 t2)"
    by (simp add: mousemove_def velocityX_def velocityY_def js_div_def)
next
  let ?dx = "clientX e2 - clientX e1" and ?dy = "clientY e2 - clientY e1"
  assume h: "t2 - t1 = 200 \<and> displacement e1 e2 = 5"
  with abs_le_displacement [of e2 e1] have "\<bar>?dx\<bar> \<le> 5" and "\<bar>?dy\<bar> \<le> 5" by simp_all
  with h show "\<not> snd (mousemove (fst (mousemove st e1 t1)) e2 t2)"
    by (simp add: mousemove_def velocityX_def velocityY_def js_div_def)
qed

theorem mousemove_stops_iff_axis_velocity_witness:
  "displacement \<lparr>clientX = 100, clientY = 100\<rparr> \<lparr>clientX = 300, clientY = 100\<rparr> = 200 \<and>
   snd (mousemove (fst (mousemove \<lparr>lastTime = 0, mouseX = 0, mouseY = 0\<rparr>
                          \<lparr>clientX = 100, clientY = 100\<rparr> 1000))
          \<lparr>clientX = 300, clientY = 100\<rparr> 1005) \<and>
   displacement \<lparr>clientX = 100, clientY = 100\<rparr> \<lparr>clientX = 103, clientY = 104\<rparr> = 5 \<and>
   \<not> snd (mousemove (fst (mousemove \<lparr>lastTime = 0, mouseX = 0, mouseY = 0\<rparr>
                          \<lparr>clientX = 100, clientY = 100\<rparr> 1000))
          \<lparr>clientX = 103, clientY = 104\<rparr> 1200)"
proof -
  let ?st = "\<lparr>lastTime = 0, mouseX = 0, mouseY = 0\<rparr>"
  let ?e1 = "\<lparr>clientX = 100, clientY = 100\<rparr>"
  let ?a = "\<lparr>clientX = 300, clientY = 100\<rparr>"
  let ?b = "\<lparr>clientX = 103, clientY = 104\<rparr>"
  have "sqrt 40000 = (200 :: real)" by (rule real_sqrt_unique) simp_all
  then have da: "displacement ?e1 ?a = 200" by (simp add: displacement_def)
  have "sqrt 25 = (5 :: real)" by (rule real_sqrt_unique) simp_all
  then have db: "displacement ?e1 ?b = 5" by (simp add: displacement_def)
  have a: "(1005::int) - 1000 = 5 \<and> displacement ?e1 ?a = 200" using da by simp
  have b: "(1200::int) - 1000 = 200 \<and> displacement ?e1 ?b = 5" using db by simp
  note t1 = mousemove_stops_iff_axis_velocity [of ?st ?e1 1000 ?a 1005]
  note t2 = mousemove_stops_iff_axis_velocity [of ?st ?e1 1000 ?b 1200]
  from t1 have "(1005::int) - 1000 = 5 \<and> displacement ?e1 ?a = 200 \<longrightarrow>
      snd (mousemove (fst (mousemove ?st ?e1 1000)) ?a 1005)"
    by (rule conjunct1 [OF conjunct2 [OF conjunct2]])
  from this a have 1: "snd (mousemove (fst (mousemove ?st ?e1 1000)) ?a 1005)" by (rule mp)
  from t2 have "(1200::int) - 1000 = 200 \<and> displacement ?e1 ?b = 5 \<longrightarrow>
      \<not> snd (mousemove (fst (mousemove ?st ?e1 1000)) ?b 1200)"
    by (rule conjunct2 [OF conjunct2 [OF conjunct2]])
  from this b have 2: "\<not> snd (mousemove (fst (mousemove ?st ?e1 1000)) ?b 1200)" by (rule mp)
  from da 1 db 2 show ?thesis by (intro conjI)
qed

section \<open>The automation flag\<close>


























end
